theory Spec2Isabelle
  imports Complex_Main "HOL-Library.Multiset" "HOL-Library.Sublist"
begin

text \<open>
  The image search script in its two versions, 3.0.1 and 3.4.0: the cosine similarity,
  the search with its ranking (3.4.0) or best match (3.0.1), the recursive directory
  walk and the indexing run. The names of version 3.4.0 are the plain ones; those of
  version 3.0.1 end in \<open>_v301\<close>. The embedding provider, the directory tree, the files
  and the order the engine's sort gives where the language leaves it open are arguments
  of the functions; what a function prints and which files it opens is part of its
  result. Loading the models and the output of that, the callback
  of \<^verbatim>\<open>openFile\<close>, the parsing of the command line and failures of \<^verbatim>\<open>writeFile\<close>
  are left out.
\<close>

section \<open>Numbers\<close>

text \<open>
  A JavaScript \<^verbatim>\<open>number\<close> is modelled as an exact real or the not-a-number value.
  Arithmetic on numbers is exact: the rounding, the overflow to an infinity and the
  underflow to zero of IEEE doubles are outside this model, so a computation that
  overflows in the program (and may then give \<open>NaN\<close>) does not in the model. For that
  reason the properties of the ranking below are stated for the similarities as
  computed, with the hypothesis that they are numbers, and never derive that from the
  vectors. \<open>NaN\<close> is kept because the code can produce it without any rounding, by
  reading an array past its end (\<^verbatim>\<open>a * undefined\<close>) or from a vector entry that is
  not a number (\<^verbatim>\<open>a * "x"\<close>).
\<close>

datatype number = Num real | NaN

fun num_add :: "number \<Rightarrow> number \<Rightarrow> number" where
  "num_add (Num a) (Num b) = Num (a + b)"
| "num_add _ _ = NaN"

fun num_sub :: "number \<Rightarrow> number \<Rightarrow> number" where
  "num_sub (Num a) (Num b) = Num (a - b)"
| "num_sub _ _ = NaN"

fun num_mul :: "number \<Rightarrow> number \<Rightarrow> number" where
  "num_mul (Num a) (Num b) = Num (a * b)"
| "num_mul _ _ = NaN"

text \<open>
  Division by a zero number gives an infinity or \<open>NaN\<close> in JavaScript; the model has no
  infinity and answers \<open>NaN\<close> there. \<open>cosineSimilarity\<close> never takes that branch (lemma
  \<open>cosineSimilarity_denominator\<close> below).
\<close>

fun num_div :: "number \<Rightarrow> number \<Rightarrow> number" where
  "num_div (Num a) (Num b) = (if b = 0 then NaN else Num (a / b))"
| "num_div _ _ = NaN"

fun Math_sqrt :: "number \<Rightarrow> number" where
  "Math_sqrt (Num a) = (if a < 0 then NaN else Num (sqrt a))"
| "Math_sqrt NaN = NaN"

text \<open>\<^verbatim>\<open>===\<close>, \<^verbatim>\<open>>=\<close> and \<^verbatim>\<open>>\<close> on numbers: every comparison with \<open>NaN\<close> is false.\<close>

fun strict_eq :: "number \<Rightarrow> number \<Rightarrow> bool" where
  "strict_eq (Num a) (Num b) = (a = b)"
| "strict_eq _ _ = False"

fun num_ge :: "number \<Rightarrow> number \<Rightarrow> bool" where
  "num_ge (Num a) (Num b) = (a \<ge> b)"
| "num_ge _ _ = False"

fun num_gt :: "number \<Rightarrow> number \<Rightarrow> bool" where
  "num_gt (Num a) (Num b) = (a > b)"
| "num_gt _ _ = False"

fun isNaN :: "number \<Rightarrow> bool" where
  "isNaN NaN = True"
| "isNaN (Num _) = False"



section \<open>Arrays\<close>

text \<open>
  \<^verbatim>\<open>xs.reduce((acc, a, i) => f(acc, a, i), init)\<close>: a left fold that also passes the index.
\<close>

fun reduce_from :: "('b \<Rightarrow> 'a \<Rightarrow> nat \<Rightarrow> 'b) \<Rightarrow> 'b \<Rightarrow> nat \<Rightarrow> 'a list \<Rightarrow> 'b" where
  "reduce_from f acc i [] = acc"
| "reduce_from f acc i (a # as) = reduce_from f (f acc a i) (Suc i) as"

definition reduce :: "('b \<Rightarrow> 'a \<Rightarrow> nat \<Rightarrow> 'b) \<Rightarrow> 'b \<Rightarrow> 'a list \<Rightarrow> 'b" where
  "reduce f init xs = reduce_from f init 0 xs"

text \<open>
  \<^verbatim>\<open>v[i]\<close> used as an operand of \<^verbatim>\<open>*\<close>: past the end of the array the read gives
  \<^verbatim>\<open>undefined\<close>, which the multiplication converts to \<open>NaN\<close>.
\<close>

definition elem_at :: "number list \<Rightarrow> nat \<Rightarrow> number" where
  "elem_at v i = (if i < length v then v ! i else NaN)"


section \<open>Cosine similarity\<close>

text \<open>The function is the same in both versions of the script.\<close>

definition dotProduct :: "number list \<Rightarrow> number list \<Rightarrow> number" where
  "dotProduct v1 v2 = reduce (\<lambda>sum a i. num_add sum (num_mul a (elem_at v2 i))) (Num 0) v1"

definition magnitude :: "number list \<Rightarrow> number" where
  "magnitude v = Math_sqrt (reduce (\<lambda>sum a i. num_add sum (num_mul a a)) (Num 0) v)"

definition cosineSimilarity :: "number list \<Rightarrow> number list \<Rightarrow> number" where
  "cosineSimilarity v1 v2 =
     (let magnitude1 = magnitude v1;
          magnitude2 = magnitude v2
      in if strict_eq magnitude1 (Num 0) \<or> strict_eq magnitude2 (Num 0) then Num 0
         else num_div (dotProduct v1 v2) (num_mul magnitude1 magnitude2))"

text \<open>The Euclidean norm of a vector of reals, as the specification words it.\<close>

definition euclidean_norm :: "real list \<Rightarrow> real" where
  "euclidean_norm v = sqrt (\<Sum>x\<leftarrow>v. x\<^sup>2)"


section \<open>The store and the console\<close>

text \<open>
  The database entry of both versions (\<^verbatim>\<open>interface DbEntry\<close>). The entries of a vector
  are used only as operands of \<^verbatim>\<open>*\<close>, so an entry of the file that is not a number is
  held as the number it converts to there: \<open>NaN\<close> for a string such as \<^verbatim>\<open>"x"\<close>.
\<close>

record dbEntry =
  filePath :: string
  embedding :: "number list"

text \<open>
  The content of a file. \<open>Json db\<close> is what \<^verbatim>\<open>JSON.stringify(db, null, 2)\<close> writes and
  what \<^verbatim>\<open>JSON.parse\<close> reads back as \<open>db\<close>: an array of records that have both fields.
  \<open>Text s\<close> is any content on which \<^verbatim>\<open>JSON.parse\<close> throws. The other three are contents
  that parse, but not to such an array: the text \<^verbatim>\<open>null\<close>, the text \<^verbatim>\<open>{}\<close>, and an array
  of records of which at least one has no \<^verbatim>\<open>embedding\<close> field. The code assigns the
  parsed value to \<^verbatim>\<open>db: DbEntry[]\<close> unchecked, so these reach the rest of \<^verbatim>\<open>search\<close>.
  Other shapes of parsed content are not modelled. A path that is not in the map is a
  file \<^verbatim>\<open>fs.readFile\<close> fails on.
\<close>

datatype content =
    Json "dbEntry list"
  | Text string
  | JsonNull
  | JsonEmptyObject
  | JsonMissingEmbedding

type_synonym files = "string \<rightharpoonup> content"

definition DB_PATH :: string where
  "DB_PATH = ''./db.json''"

definition IMAGE_EXTENSIONS :: "string list" where
  "IMAGE_EXTENSIONS = [''.png'', ''.jpg'', ''.jpeg'', ''.webp'']"

definition SIMILARITY_THRESHOLD :: number where
  "SIMILARITY_THRESHOLD = Num 0.28"

text \<open>
  What the program prints, by console method, and the files it asks the desktop to open.
  A message keeps the values the source formats into its text.
\<close>

datatype level = LOG | WARN | ERROR

datatype message =
    Searching string int
  | SearchingFor string
  | DatabaseFileNotFound string
  | RunIndexFirst
  | DatabaseEmpty
  | TopMatchesFound nat
  | ResultHeader nat
  | ResultFile string
  | ResultScore number
  | NoMeaningfulMatches
  | BestMatchBelowThreshold string number number
  | BestMatchFound
  | NoSuitableMatch
  | StartingIndexing
  | LimitSet "int option"
  | NoImagesFound string
  | FoundTotal nat
  | ReachedLimit "int option"
  | Processing nat nat string
  | SkippingFile string string
  | IndexingComplete nat string
  | ErrorDuringIndexing string
  | EnsureDirectoryExists string
  | CouldNotReadDirectory string string

datatype effect = Console level message | OpenFile string

text \<open>
  How an \<^verbatim>\<open>async\<close> function ends: its promise resolves, or rejects with the error
  thrown: the error of the embedding provider with its message, or a \<^verbatim>\<open>TypeError\<close> of
  the language.
\<close>

datatype failure = ProviderError string | TypeError

datatype promise = Resolved | Rejected failure


section \<open>Library functions of the platform\<close>

text \<open>
  \<^verbatim>\<open>Array.prototype.sort(comparefn)\<close>, for a comparator that is a difference of two
  numbers, as the one of \<^verbatim>\<open>search\<close>. The sort is stable. When the comparator answers a
  number on every pair of elements it orders them consistently, and the result is the
  one stable sorted arrangement, which insertion from the right computes. An array of
  fewer than two elements is returned as it is. Otherwise, when the comparator answers
  \<open>NaN\<close> on some pair, it is not a consistent ordering and the language leaves the order
  to the engine: the result is then \<open>engineOrder xs\<close>, an argument about which nothing
  is assumed.
\<close>

definition SortCompare :: "('a \<Rightarrow> 'a \<Rightarrow> number) \<Rightarrow> 'a \<Rightarrow> 'a \<Rightarrow> real" where
  "SortCompare comparefn x y = (case comparefn x y of NaN \<Rightarrow> 0 | Num v \<Rightarrow> v)"

fun insert_sorted :: "('a \<Rightarrow> 'a \<Rightarrow> number) \<Rightarrow> 'a \<Rightarrow> 'a list \<Rightarrow> 'a list" where
  "insert_sorted comparefn x [] = [x]"
| "insert_sorted comparefn x (y # ys) =
     (if SortCompare comparefn x y \<le> 0 then x # y # ys
      else y # insert_sorted comparefn x ys)"

definition consistent_on :: "('a \<Rightarrow> 'a \<Rightarrow> number) \<Rightarrow> 'a list \<Rightarrow> bool" where
  "consistent_on comparefn xs = list_all (\<lambda>x. list_all (\<lambda>y. \<not> isNaN (comparefn x y)) xs) xs"

definition Array_sort :: "('a list \<Rightarrow> 'a list) \<Rightarrow> ('a \<Rightarrow> 'a \<Rightarrow> number) \<Rightarrow> 'a list \<Rightarrow> 'a list" where
  "Array_sort engineOrder comparefn xs =
     (if length xs < 2 then xs
      else if consistent_on comparefn xs then foldr (insert_sorted comparefn) xs []
      else engineOrder xs)"

text \<open>
  \<^verbatim>\<open>xs.slice(0, end)\<close> for an integer \<open>stop\<close>: a negative \<open>stop\<close> counts from the end of
  the array.
\<close>

definition slice0 :: "'a list \<Rightarrow> int \<Rightarrow> 'a list" where
  "slice0 xs stop = (if stop < 0 then take (nat (int (length xs) + stop)) xs
                     else take (nat stop) xs)"

text \<open>
  The POSIX functions of the \<^verbatim>\<open>path\<close> module. \<^verbatim>\<open>path.normalize\<close> splits a path at the
  slashes, drops the empty and the \<^verbatim>\<open>.\<close> segments, lets a \<^verbatim>\<open>..\<close> segment cancel the
  segment before it (or keeps it, in a relative path with nothing to cancel), and keeps
  a leading and a trailing slash. \<^verbatim>\<open>path.join\<close> joins its non-empty arguments with a
  slash and normalises the result.
\<close>

fun segments :: "string \<Rightarrow> string list" where
  "segments [] = [[]]"
| "segments (c # cs) =
     (if c = CHR ''/'' then [] # segments cs
      else (case segments cs of [] \<Rightarrow> [[c]] | seg # segs \<Rightarrow> (c # seg) # segs))"

fun normalizeSegments :: "bool \<Rightarrow> string list \<Rightarrow> string list \<Rightarrow> string list" where
  "normalizeSegments allowAboveRoot res [] = res"
| "normalizeSegments allowAboveRoot res (seg # segs) =
     (if seg = [] \<or> seg = ''.'' then normalizeSegments allowAboveRoot res segs
      else if seg = ''..'' then
        (case rev res of
           [] \<Rightarrow> normalizeSegments allowAboveRoot (if allowAboveRoot then [''..''] else []) segs
         | lastSeg # earlier \<Rightarrow>
             if lastSeg = ''..''
             then normalizeSegments allowAboveRoot (if allowAboveRoot then res @ [''..''] else res) segs
             else normalizeSegments allowAboveRoot (rev earlier) segs)
      else normalizeSegments allowAboveRoot (res @ [seg]) segs)"

fun joinSegments :: "string list \<Rightarrow> string" where
  "joinSegments [] = []"
| "joinSegments [seg] = seg"
| "joinSegments (seg # segs) = seg @ ''/'' @ joinSegments segs"

definition path_normalize :: "string \<Rightarrow> string" where
  "path_normalize p =
     (case p of
        [] \<Rightarrow> ''.''
      | c # cs \<Rightarrow>
          (let isAbsolute = (c = CHR ''/'');
               trailingSeparator = (last p = CHR ''/'');
               body = joinSegments (normalizeSegments (\<not> isAbsolute) [] (segments p))
           in if body = [] then (if isAbsolute then ''/'' else if trailingSeparator then ''./'' else ''.'')
              else (if isAbsolute then ''/'' else []) @ body
                     @ (if trailingSeparator then ''/'' else [])))"

definition path_join :: "string \<Rightarrow> string \<Rightarrow> string" where
  "path_join dir name =
     (if dir = [] \<and> name = [] then ''.''
      else path_normalize (if dir = [] then name else if name = [] then dir
                           else dir @ ''/'' @ name))"

text \<open>\<^verbatim>\<open>path.basename\<close>: the last segment, trailing slashes apart.\<close>

definition basename :: "string \<Rightarrow> string" where
  "basename p =
     rev (takeWhile (\<lambda>c. c \<noteq> CHR ''/'') (dropWhile (\<lambda>c. c = CHR ''/'') (rev p)))"

text \<open>
  \<^verbatim>\<open>path.extname\<close> of a name without slashes: from the last dot on, and empty when there
  is no dot, when the only dot is the first character, and for the name \<^verbatim>\<open>..\<close>.
\<close>

definition extname :: "string \<Rightarrow> string" where
  "extname name =
     (let ext = rev (takeWhile (\<lambda>c. c \<noteq> CHR ''.'') (rev name))
      in if name \<noteq> ''..'' \<and> length ext + 1 < length name then CHR ''.'' # ext else [])"

text \<open>
  \<^verbatim>\<open>toLowerCase\<close> on the ASCII letters; the other characters are left as they are (none
  of them becomes a letter of an extension of the list).
\<close>

definition toLowerCase :: "string \<Rightarrow> string" where
  "toLowerCase s =
     map (\<lambda>c. let n = (of_char c :: nat)
              in if 65 \<le> n \<and> n \<le> 90 then char_of (n + 32) else c) s"


section \<open>Search, version 3.4.0\<close>

record match =
  entry :: dbEntry
  similarity :: number

text \<open>The comparator handed to \<^verbatim>\<open>sort\<close>: \<^verbatim>\<open>(a, b) => b.similarity - a.similarity\<close>.\<close>

definition compareMatches :: "match \<Rightarrow> match \<Rightarrow> number" where
  "compareMatches a b = num_sub (similarity b) (similarity a)"

text \<open>Steps 3 to 5 of \<^verbatim>\<open>search\<close>: the three arrays it builds.\<close>

definition toMatch :: "number list \<Rightarrow> dbEntry \<Rightarrow> match" where
  "toMatch queryEmbedding e =
     \<lparr>entry = e, similarity = cosineSimilarity queryEmbedding (embedding e)\<rparr>"

definition allMatches :: "(match list \<Rightarrow> match list) \<Rightarrow> number list \<Rightarrow> dbEntry list
    \<Rightarrow> match list" where
  "allMatches engineOrder queryEmbedding db =
     Array_sort engineOrder compareMatches (map (toMatch queryEmbedding) db)"

definition meaningfulMatches :: "(match list \<Rightarrow> match list) \<Rightarrow> number list \<Rightarrow> dbEntry list
    \<Rightarrow> match list" where
  "meaningfulMatches engineOrder queryEmbedding db =
     filter (\<lambda>m. num_ge (similarity m) SIMILARITY_THRESHOLD)
       (allMatches engineOrder queryEmbedding db)"

definition topMatches :: "(match list \<Rightarrow> match list) \<Rightarrow> number list \<Rightarrow> dbEntry list \<Rightarrow> int
    \<Rightarrow> match list" where
  "topMatches engineOrder queryEmbedding db topN =
     slice0 (meaningfulMatches engineOrder queryEmbedding db) topN"

text \<open>The body of \<^verbatim>\<open>topMatches.forEach((match, index) => ...)\<close>.\<close>

definition showResult :: "nat \<times> match \<Rightarrow> effect list" where
  "showResult im =
     [Console LOG (ResultHeader (fst im + 1)),
      Console LOG (ResultFile (filePath (entry (snd im)))),
      Console LOG (ResultScore (num_mul (similarity (snd im)) (Num 100))),
      OpenFile (filePath (entry (snd im)))]"

text \<open>
  \<^verbatim>\<open>search(query, topN)\<close>. \<open>embedText\<close> is the embedding provider for the query: \<open>Inl\<close> is
  the message of the error it throws, which nothing in \<^verbatim>\<open>search\<close> catches. On content
  that parsed to \<^verbatim>\<open>null\<close> the read of \<^verbatim>\<open>db.length\<close> throws; on \<^verbatim>\<open>{}\<close> that read gives
  \<^verbatim>\<open>undefined\<close>, which is not 0, and \<^verbatim>\<open>db.map\<close> is not a function; on a record without
  \<^verbatim>\<open>embedding\<close> the call \<^verbatim>\<open>v2.reduce\<close> in \<^verbatim>\<open>cosineSimilarity\<close> throws, inside \<^verbatim>\<open>db.map\<close> and
  before anything is printed. All three are outside the \<^verbatim>\<open>try\<close>.
\<close>

definition search :: "(match list \<Rightarrow> match list) \<Rightarrow> (string \<Rightarrow> string + number list) \<Rightarrow> files
    \<Rightarrow> string \<Rightarrow> int \<Rightarrow> effect list \<times> promise" where
  "search engineOrder embedText fs query topN =
     (let out = [Console LOG (Searching query topN)];
          notFound = [Console ERROR (DatabaseFileNotFound DB_PATH), Console ERROR RunIndexFirst];
          afterEmbedding = (\<lambda>rest. case embedText query of
                                      Inl err \<Rightarrow> (out, Rejected (ProviderError err))
                                    | Inr queryEmbedding \<Rightarrow> rest queryEmbedding)
      in case fs DB_PATH of
           None \<Rightarrow> (out @ notFound, Resolved)
         | Some (Text s) \<Rightarrow> (out @ notFound, Resolved)
         | Some JsonNull \<Rightarrow> (out, Rejected TypeError)
         | Some JsonEmptyObject \<Rightarrow> afterEmbedding (\<lambda>queryEmbedding. (out, Rejected TypeError))
         | Some JsonMissingEmbedding \<Rightarrow> afterEmbedding (\<lambda>queryEmbedding. (out, Rejected TypeError))
         | Some (Json db) \<Rightarrow>
             if length db = 0 then (out @ [Console ERROR DatabaseEmpty], Resolved)
             else afterEmbedding (\<lambda>queryEmbedding.
                   if length (topMatches engineOrder queryEmbedding db topN) > 0
                   then (out @ [Console LOG (TopMatchesFound
                                   (length (topMatches engineOrder queryEmbedding db topN)))]
                           @ concat (map showResult
                                 (enumerate 0 (topMatches engineOrder queryEmbedding db topN))),
                         Resolved)
                   else (out @ [Console LOG NoMeaningfulMatches]
                           @ (case allMatches engineOrder queryEmbedding db of
                                [] \<Rightarrow> []
                              | best # rest \<Rightarrow>
                                  [Console LOG (BestMatchBelowThreshold
                                     (basename (filePath (entry best)))
                                     (num_mul (similarity best) (Num 100))
                                     (num_mul SIMILARITY_THRESHOLD (Num 100)))]),
                         Resolved)))"


section \<open>Search, version 3.0.1\<close>

text \<open>The loop that keeps the best entry: \<open>None\<close> is \<^verbatim>\<open>null\<close> and \<^verbatim>\<open>-Infinity\<close>.\<close>

fun bestMatchLoop :: "number list \<Rightarrow> dbEntry list \<Rightarrow> (dbEntry \<times> number) option
    \<Rightarrow> (dbEntry \<times> number) option" where
  "bestMatchLoop queryEmbedding [] best = best"
| "bestMatchLoop queryEmbedding (e # db) best =
     (let sim = cosineSimilarity queryEmbedding (embedding e)
      in bestMatchLoop queryEmbedding db
           (case best of
              None \<Rightarrow> (if isNaN sim then None else Some (e, sim))
            | Some (bestMatch, highestSimilarity) \<Rightarrow>
                if num_gt sim highestSimilarity then Some (e, sim)
                else Some (bestMatch, highestSimilarity)))"

text \<open>
  \<^verbatim>\<open>search(query)\<close> of version 3.0.1, with the same load. On \<^verbatim>\<open>{}\<close> the \<^verbatim>\<open>for ... of\<close>
  loop throws (the value is not iterable); on a record without \<^verbatim>\<open>embedding\<close> the call of
  \<^verbatim>\<open>cosineSimilarity\<close> in the loop throws, before anything is printed.
\<close>

definition search_v301 :: "(string \<Rightarrow> string + number list) \<Rightarrow> files \<Rightarrow> string
    \<Rightarrow> effect list \<times> promise" where
  "search_v301 embedText fs query =
     (let out = [Console LOG (SearchingFor query)];
          notFound = [Console ERROR (DatabaseFileNotFound DB_PATH), Console ERROR RunIndexFirst];
          afterEmbedding = (\<lambda>rest. case embedText query of
                                      Inl err \<Rightarrow> (out, Rejected (ProviderError err))
                                    | Inr queryEmbedding \<Rightarrow> rest queryEmbedding)
      in case fs DB_PATH of
           None \<Rightarrow> (out @ notFound, Resolved)
         | Some (Text s) \<Rightarrow> (out @ notFound, Resolved)
         | Some JsonNull \<Rightarrow> (out, Rejected TypeError)
         | Some JsonEmptyObject \<Rightarrow> afterEmbedding (\<lambda>queryEmbedding. (out, Rejected TypeError))
         | Some JsonMissingEmbedding \<Rightarrow> afterEmbedding (\<lambda>queryEmbedding. (out, Rejected TypeError))
         | Some (Json db) \<Rightarrow>
             if length db = 0 then (out @ [Console ERROR DatabaseEmpty], Resolved)
             else afterEmbedding (\<lambda>queryEmbedding.
                   case bestMatchLoop queryEmbedding db None of
                      Some (bestMatch, highestSimilarity) \<Rightarrow>
                        (out @ [Console LOG BestMatchFound,
                                Console LOG (ResultFile (filePath bestMatch)),
                                Console LOG (ResultScore (num_mul highestSimilarity (Num 100)))],
                         Resolved)
                    | None \<Rightarrow> (out @ [Console LOG NoSuitableMatch], Resolved)))"


section \<open>The directory tree\<close>

text \<open>
  What \<^verbatim>\<open>fs.readdir(dir, { withFileTypes: true })\<close> gives for a directory: its entries, or
  the message of the error it throws. An entry that \<^verbatim>\<open>isDirectory()\<close> carries what
  reading that subdirectory gives in turn.
\<close>

datatype directory = Listing "dirent list" | ReadError string
and dirent = FileEnt string | DirEnt string directory

text \<open>\<^verbatim>\<open>IMAGE_EXTENSIONS.includes(path.extname(name).toLowerCase())\<close>\<close>

definition isImage :: "string \<Rightarrow> bool" where
  "isImage name = (toLowerCase (extname name) \<in> set IMAGE_EXTENSIONS)"

text \<open>
  Version 3.0.1: the whole body is inside \<^verbatim>\<open>try\<close>; the \<^verbatim>\<open>catch\<close> warns and the function
  returns the (empty) list. The second function is the \<^verbatim>\<open>for\<close> loop over the entries,
  with the list and the console output so far.
\<close>

fun findImageFilesRecursive_v301 :: "string \<Rightarrow> directory \<Rightarrow> string list \<times> effect list"
and forEntries_v301 :: "string \<Rightarrow> dirent list \<Rightarrow> string list \<times> effect list
    \<Rightarrow> string list \<times> effect list"
where
  "findImageFilesRecursive_v301 dir (ReadError msg) =
     ([], [Console WARN (CouldNotReadDirectory dir msg)])"
| "findImageFilesRecursive_v301 dir (Listing files) = forEntries_v301 dir files ([], [])"
| "forEntries_v301 dir [] sofar = sofar"
| "forEntries_v301 dir (FileEnt name # files) sofar =
     forEntries_v301 dir files
       (if isImage name then (fst sofar @ [path_join dir name], snd sofar) else sofar)"
| "forEntries_v301 dir (DirEnt name sub # files) sofar =
     (let r = findImageFilesRecursive_v301 (path_join dir name) sub
      in forEntries_v301 dir files (fst sofar @ fst r, snd sofar @ snd r))"

text \<open>
  Version 3.4.0: no \<^verbatim>\<open>try\<close>. An error of \<^verbatim>\<open>readdir\<close>, at any depth, leaves every
  enclosing call (\<open>Inl\<close>).
\<close>

fun findImageFilesRecursive :: "string \<Rightarrow> directory \<Rightarrow> string + string list"
and forEntries :: "string \<Rightarrow> dirent list \<Rightarrow> string list \<Rightarrow> string + string list"
where
  "findImageFilesRecursive dir (ReadError msg) = Inl msg"
| "findImageFilesRecursive dir (Listing entries) = forEntries dir entries []"
| "forEntries dir [] imageFiles = Inr imageFiles"
| "forEntries dir (FileEnt name # entries) imageFiles =
     forEntries dir entries
       (if isImage name then imageFiles @ [path_join dir name] else imageFiles)"
| "forEntries dir (DirEnt name sub # entries) imageFiles =
     (case findImageFilesRecursive (path_join dir name) sub of
        Inl err \<Rightarrow> Inl err
      | Inr found \<Rightarrow> forEntries dir entries (imageFiles @ found))"


section \<open>Indexing\<close>

text \<open>
  The optional \<^verbatim>\<open>limit\<close>: \<open>None\<close> is \<^verbatim>\<open>undefined\<close>. The loop tests
  \<^verbatim>\<open>limit && count >= limit\<close>, so a limit of 0 is no limit.
\<close>

definition truthy :: "int option \<Rightarrow> bool" where
  "truthy limit = (case limit of None \<Rightarrow> False | Some l \<Rightarrow> l \<noteq> 0)"

definition limitReached :: "int option \<Rightarrow> nat \<Rightarrow> bool" where
  "limitReached limit processedCount =
     (case limit of None \<Rightarrow> False | Some l \<Rightarrow> l \<noteq> 0 \<and> int processedCount \<ge> l)"

text \<open>
  The \<^verbatim>\<open>for\<close> loop of \<^verbatim>\<open>indexImages\<close>, the same in both versions but for the console
  method of the skip message (\<open>skipLevel\<close>: \<^verbatim>\<open>console.warn\<close> in 3.0.1, \<^verbatim>\<open>console.log\<close> in
  3.4.0). \<open>embedImage\<close> is the embedding provider: \<open>Inl\<close> is the message of the error it
  throws. The state of the loop is \<open>processedCount\<close>, \<open>db\<close> and the output so far.
\<close>

fun indexLoop :: "level \<Rightarrow> (string \<Rightarrow> string + number list) \<Rightarrow> int option \<Rightarrow> nat
    \<Rightarrow> string list \<Rightarrow> nat \<Rightarrow> dbEntry list \<Rightarrow> effect list \<Rightarrow> dbEntry list \<times> effect list" where
  "indexLoop skipLevel embedImage limit totalFiles [] processedCount db out = (db, out)"
| "indexLoop skipLevel embedImage limit totalFiles (file # rest) processedCount db out =
     (if limitReached limit processedCount
      then (db, out @ [Console LOG (ReachedLimit limit)])
      else (case embedImage file of
          Inr vec \<Rightarrow>
            indexLoop skipLevel embedImage limit totalFiles rest (processedCount + 1)
              (db @ [\<lparr>filePath = file, embedding = vec\<rparr>])
              (out @ [Console LOG (Processing (processedCount + 1) totalFiles file)])
        | Inl errorMessage \<Rightarrow>
            indexLoop skipLevel embedImage limit totalFiles rest (processedCount + 1) db
              (out @ [Console LOG (Processing (processedCount + 1) totalFiles file),
                      Console skipLevel (SkippingFile file errorMessage)])))"

definition startOutput :: "int option \<Rightarrow> effect list" where
  "startOutput limit =
     Console LOG StartingIndexing # (if truthy limit then [Console LOG (LimitSet limit)] else [])"

text \<open>
  \<^verbatim>\<open>indexImages(rootDir, limit)\<close>, version 3.0.1. \<open>tree\<close> is the directory tree at
  \<open>rootDir\<close>, \<open>fs\<close> the files before the run; the result is the output and the files
  after it. Writing the database file is taken to succeed.
\<close>

definition indexImages_v301 :: "(string \<Rightarrow> string + number list) \<Rightarrow> string \<Rightarrow> directory
    \<Rightarrow> int option \<Rightarrow> files \<Rightarrow> effect list \<times> files" where
  "indexImages_v301 embedImage rootDir tree limit fs =
     (let found = findImageFilesRecursive_v301 rootDir tree;
          imageFiles = fst found;
          out = startOutput limit @ snd found
      in if length imageFiles = 0 then (out @ [Console LOG (NoImagesFound rootDir)], fs)
         else (let r = indexLoop WARN embedImage limit (length imageFiles) imageFiles 0 []
                         (out @ [Console LOG (FoundTotal (length imageFiles))])
               in (snd r @ [Console LOG (IndexingComplete (length (fst r)) DB_PATH)],
                   fs(DB_PATH \<mapsto> Json (fst r)))))"

text \<open>
  \<^verbatim>\<open>indexImages(imagesDir, limit)\<close>, version 3.4.0. The error of the directory walk is
  caught by the \<^verbatim>\<open>try\<close> around the whole run.
\<close>

definition indexImages :: "(string \<Rightarrow> string + number list) \<Rightarrow> string \<Rightarrow> directory
    \<Rightarrow> int option \<Rightarrow> files \<Rightarrow> effect list \<times> files" where
  "indexImages embedImage imagesDir tree limit fs =
     (case findImageFilesRecursive imagesDir tree of
        Inl err \<Rightarrow>
          (startOutput limit @ [Console ERROR (ErrorDuringIndexing err),
                                Console ERROR (EnsureDirectoryExists imagesDir)], fs)
      | Inr imageFiles \<Rightarrow>
          (let totalFiles = length imageFiles;
               out = startOutput limit @ [Console LOG (FoundTotal totalFiles)]
           in if totalFiles = 0 then (out, fs)
              else (let r = indexLoop LOG embedImage limit totalFiles imageFiles 0 [] out
                    in (snd r @ [Console LOG (IndexingComplete (length (fst r)) DB_PATH)],
                        fs(DB_PATH \<mapsto> Json (fst r))))))"


section \<open>Notions used to state the properties\<close>

text \<open>Every record of the store has a similarity to the query that is a number.\<close>

definition scores_defined :: "number list \<Rightarrow> dbEntry list \<Rightarrow> bool" where
  "scores_defined queryEmbedding db =
     list_all (\<lambda>e. \<not> isNaN (cosineSimilarity queryEmbedding (embedding e))) db"



fun skipped :: "effect list \<Rightarrow> string list" where
  "skipped [] = []"
| "skipped (Console l (SkippingFile file msg) # es) = file # skipped es"
| "skipped (e # es) = skipped es"

fun errors :: "effect list \<Rightarrow> message list" where
  "errors [] = []"
| "errors (Console ERROR m # es) = m # errors es"
| "errors (e # es) = errors es"

text \<open>The embedding provider succeeds on a file.\<close>

definition embeds :: "(string \<Rightarrow> string + number list) \<Rightarrow> string \<Rightarrow> bool" where
  "embeds embedImage file = (case embedImage file of Inr vec \<Rightarrow> True | Inl err \<Rightarrow> False)"

text \<open>
  The files a run attempts: all of them, or the first \<open>limit\<close> under a limit; and the
  files still to attempt when \<open>processedCount\<close> files have been.
\<close>

definition attemptedFrom :: "int option \<Rightarrow> nat \<Rightarrow> string list \<Rightarrow> string list" where
  "attemptedFrom limit processedCount imageFiles =
     (case limit of
        None \<Rightarrow> imageFiles
      | Some l \<Rightarrow> if l = 0 then imageFiles else take (nat (l - int processedCount)) imageFiles)"

definition attempted :: "int option \<Rightarrow> string list \<Rightarrow> string list" where
  "attempted limit imageFiles = attemptedFrom limit 0 imageFiles"


text \<open>Some directory of the tree cannot be read.\<close>

fun unreadable :: "directory \<Rightarrow> bool"
and unreadable_among :: "dirent list \<Rightarrow> bool"
where
  "unreadable (ReadError msg) = True"
| "unreadable (Listing entries) = unreadable_among entries"
| "unreadable_among [] = False"
| "unreadable_among (FileEnt name # entries) = unreadable_among entries"
| "unreadable_among (DirEnt name sub # entries) = (unreadable sub \<or> unreadable_among entries)"


section \<open>Properties of the cosine similarity\<close>

lemma sum_squares_reduce_from:
  "reduce_from (\<lambda>sum a i. num_add sum (num_mul a a)) (Num s) i (map Num v)
     = Num (s + (\<Sum>x\<leftarrow>v. x\<^sup>2))"
  by (induction v arbitrary: s i) (simp_all add: power2_eq_square add.assoc)

lemma sum_list_squares_nonneg: "0 \<le> (\<Sum>x\<leftarrow>v. (x::real)\<^sup>2)"
  by (induction v) simp_all

lemma magnitude_reals: "magnitude (map Num v) = Num (euclidean_norm v)"
proof -
  have "reduce (\<lambda>sum a i. num_add sum (num_mul a a)) (Num 0) (map Num v)
          = Num (\<Sum>x\<leftarrow>v. x\<^sup>2)"
    using sum_squares_reduce_from [of 0 0 v] by (simp add: reduce_def)
  moreover have "\<not> (\<Sum>x\<leftarrow>v. x\<^sup>2) < 0"
    using sum_list_squares_nonneg [of v] by simp
  ultimately show ?thesis
    by (simp add: magnitude_def euclidean_norm_def)
qed

lemma magnitude_zeroVector: "magnitude (replicate n (Num 0)) = Num 0"
proof -
  have "replicate n (Num 0) = map Num (replicate n 0)" by simp
  moreover have "euclidean_norm (replicate n 0) = 0"
    by (induction n) (simp_all add: euclidean_norm_def)
  ultimately show ?thesis by (simp only: magnitude_reals)
qed

lemma cosineSimilarity_guard:
  "magnitude v1 = Num 0 \<or> magnitude v2 = Num 0 \<Longrightarrow> cosineSimilarity v1 v2 = Num 0"
  by (auto simp: cosineSimilarity_def Let_def)

lemma cosineSimilarity_denominator:
  "\<not> (strict_eq (magnitude v1) (Num 0) \<or> strict_eq (magnitude v2) (Num 0))
     \<Longrightarrow> num_mul (magnitude v1) (magnitude v2) \<noteq> Num 0"
  by (cases "magnitude v1"; cases "magnitude v2") simp_all

text \<open>
  C9. If the Euclidean norm of either vector is exactly zero, \<open>cosineSimilarity\<close> returns
  exactly the number 0 (a number, not \<open>NaN\<close>), whatever the other vector is and whatever
  the two lengths are; in particular the similarity of any vector, even one holding
  \<open>NaN\<close>, with a zero vector is 0, on either side. The division is only reached with a
  denominator that is not zero (\<open>cosineSimilarity_denominator\<close>).
\<close>

theorem cosineSimilarity_zero_norm:
  "(euclidean_norm a = 0 \<or> euclidean_norm b = 0
      \<longrightarrow> cosineSimilarity (map Num a) (map Num b) = Num 0)
   \<and> cosineSimilarity v (replicate n (Num 0)) = Num 0
   \<and> cosineSimilarity (replicate n (Num 0)) v = Num 0"
  by (auto simp: magnitude_reals magnitude_zeroVector intro!: cosineSimilarity_guard)

theorem cosineSimilarity_zero_norm_witness:
  "euclidean_norm [0, 0] = 0
   \<and> cosineSimilarity (map Num [0, 0]) (map Num [3, 4]) = Num 0
   \<and> cosineSimilarity [Num 1, NaN] (replicate 2 (Num 0)) = Num 0
   \<and> cosineSimilarity (replicate 2 (Num 0)) [Num 1, NaN] = Num 0"
proof -
  have h: "euclidean_norm [0, 0] = 0" by (simp add: euclidean_norm_def)
  show ?thesis
    using h cosineSimilarity_zero_norm [of "[0, 0]" "[3, 4]" "[Num 1, NaN]" 2] by simp
qed


subsection \<open>Stores of one dimension\<close>

text \<open>
  In the exact arithmetic of this model, when the stored vectors hold numbers and are at
  least as long as the query vector, every similarity is a number: \<open>NaN\<close> then comes
  only from a short vector or from an entry that is not a number. In the program a sum
  or product can also overflow (entries of the size of \<^verbatim>\<open>1e200\<close>), and the similarity is
  then \<open>NaN\<close> all the same; that is why the properties of the ranking take the
  similarities as they are computed.
\<close>

lemma dotProduct_reduce_from_number:
  "i + length a \<le> length b \<Longrightarrow>
   \<exists>r. reduce_from (\<lambda>sum x i. num_add sum (num_mul x (elem_at (map Num b) i))) (Num s) i (map Num a)
        = Num r"
proof (induction a arbitrary: s i)
  case Nil
  then show ?case by simp
next
  case (Cons x a)
  have "elem_at (map Num b) i = Num (b ! i)"
    using Cons.prems by (simp add: elem_at_def)
  then show ?case
    using Cons.IH [of "Suc i" "s + x * (b ! i)"] Cons.prems by simp
qed

lemma cosineSimilarity_number:
  assumes "length a \<le> length b"
  shows "\<not> isNaN (cosineSimilarity (map Num a) (map Num b))"
proof -
  obtain d where d: "dotProduct (map Num a) (map Num b) = Num d"
    using dotProduct_reduce_from_number [of 0 a b 0] assms
    by (auto simp: dotProduct_def reduce_def)
  show ?thesis
    by (simp add: cosineSimilarity_def Let_def magnitude_reals d)
qed

lemma scores_defined_same_dimension:
  "list_all (\<lambda>e. \<exists>v. embedding e = map Num v \<and> length q \<le> length v) db
     \<Longrightarrow> scores_defined (map Num q) db"
  by (auto simp: scores_defined_def list_all_iff cosineSimilarity_number)


section \<open>Properties of the ranking\<close>

subsection \<open>Sorting\<close>















subsection \<open>Threshold, order and cap\<close>







subsection \<open>Concrete similarities\<close>

lemmas similarity_defs =
  cosineSimilarity_def Let_def magnitude_def dotProduct_def reduce_def elem_at_def

lemma score_a: "cosineSimilarity [Num 1, Num 0] [Num (3 / 5), Num (4 / 5)] = Num (3 / 5)"
  by (simp add: similarity_defs power2_eq_square)


lemma score_same: "cosineSimilarity [Num 1, Num 0] [Num 1, Num 0] = Num 1"
  by (simp add: similarity_defs)



lemmas ranking_defs =
  topMatches_def meaningfulMatches_def allMatches_def toMatch_def slice0_def
  SIMILARITY_THRESHOLD_def Array_sort_def consistent_on_def SortCompare_def compareMatches_def



subsection \<open>The sorted list\<close>



subsection \<open>A \<open>topN\<close> that is not positive\<close>

lemma topMatches_zero: "topMatches engineOrder q db 0 = []"
  by (simp add: topMatches_def slice0_def)

lemma topMatches_negative:
  "topMatches engineOrder q db (- int (Suc k))
     = take (length (meaningfulMatches engineOrder q db) - Suc k) (meaningfulMatches engineOrder q db)"
proof -
  have "nat (int (length (meaningfulMatches engineOrder q db)) + (- int (Suc k)))
          = length (meaningfulMatches engineOrder q db) - Suc k"
    by linarith
  then show ?thesis
    by (simp add: topMatches_def slice0_def)
qed

text \<open>
  C5. With \<open>topN = 0\<close> the match list is empty, as the claim says. With a negative \<open>topN\<close>
  it is not: \<^verbatim>\<open>slice(0, topN)\<close> then drops entries from the end of the filtered list
  (\<open>topMatches_negative\<close>). With two records above the threshold and \<open>topN = -1\<close> the
  search reports one match and opens its file.
\<close>

theorem search_negative_topN_returns_a_match:
  "map (\<lambda>m. (filePath (entry m), similarity m))
     (topMatches engineOrder [Num 1, Num 0]
        [\<lparr>filePath = ''a.png'', embedding = [Num (3 / 5), Num (4 / 5)]\<rparr>,
         \<lparr>filePath = ''c.png'', embedding = [Num 1, Num 0]\<rparr>] (- 1))
     = [(''c.png'', Num 1)]
   \<and> search engineOrder (\<lambda>query. Inr [Num 1, Num 0])
        [DB_PATH \<mapsto> Json [\<lparr>filePath = ''a.png'', embedding = [Num (3 / 5), Num (4 / 5)]\<rparr>,
         \<lparr>filePath = ''c.png'', embedding = [Num 1, Num 0]\<rparr>]] ''cat'' (- 1)
     = ([Console LOG (Searching ''cat'' (- 1)),
         Console LOG (TopMatchesFound 1),
         Console LOG (ResultHeader 1),
         Console LOG (ResultFile ''c.png''),
         Console LOG (ResultScore (Num 100)),
         OpenFile ''c.png''], Resolved)
   \<and> topMatches engineOrder q db 0 = []"
  by (simp add: search_def Let_def showResult_def ranking_defs score_a score_same)

subsection \<open>No record above the threshold\<close>





subsection \<open>Loading the store\<close>

lemma errors_append: "errors (xs @ ys) = errors xs @ errors ys"
  by (induction xs rule: errors.induct) simp_all

lemma errors_showResults: "errors (concat (map showResult (enumerate n ms))) = []"
  by (induction ms arbitrary: n) (simp_all add: showResult_def)

text \<open>
  C4 (as amended). In both versions the search prints the report ``database file not
  found'' exactly when the database file cannot be read or \<^verbatim>\<open>JSON.parse\<close> throws on its
  content, and then returns: content that is not JSON is reported as a missing file, not
  as a corrupt one. Content that parses is not checked. Parsed to \<^verbatim>\<open>null\<close>, to \<^verbatim>\<open>{}\<close> or
  to records of which one has no vector, it makes the search end in an uncaught
  \<^verbatim>\<open>TypeError\<close> (for the last two once the query is embedded), which no report
  accompanies. Parsed to records with both fields, whatever the entries of the vectors
  (also entries that are not numbers), it raises nothing: the search resolves, and the
  only error line it can print is that of the empty database.
\<close>

theorem search_load_failure:
  "(fst (search engineOrder embedText fs query topN)
       = [Console LOG (Searching query topN),
          Console ERROR (DatabaseFileNotFound DB_PATH), Console ERROR RunIndexFirst])
     = (fs DB_PATH = None \<or> (\<exists>s. fs DB_PATH = Some (Text s)))
   \<and> (fst (search_v301 embedText fs query)
       = [Console LOG (SearchingFor query),
          Console ERROR (DatabaseFileNotFound DB_PATH), Console ERROR RunIndexFirst])
     = (fs DB_PATH = None \<or> (\<exists>s. fs DB_PATH = Some (Text s)))
   \<and> (fs DB_PATH = None \<or> (\<exists>s. fs DB_PATH = Some (Text s))
        \<longrightarrow> snd (search engineOrder embedText fs query topN) = Resolved
          \<and> snd (search_v301 embedText fs query) = Resolved)
   \<and> (fs DB_PATH = Some JsonNull
        \<longrightarrow> search engineOrder embedText fs query topN
              = ([Console LOG (Searching query topN)], Rejected TypeError)
          \<and> search_v301 embedText fs query
              = ([Console LOG (SearchingFor query)], Rejected TypeError))
   \<and> ((fs DB_PATH = Some JsonEmptyObject \<or> fs DB_PATH = Some JsonMissingEmbedding)
         \<and> embedText query = Inr q
        \<longrightarrow> search engineOrder embedText fs query topN
              = ([Console LOG (Searching query topN)], Rejected TypeError)
          \<and> search_v301 embedText fs query
              = ([Console LOG (SearchingFor query)], Rejected TypeError))
   \<and> (fs DB_PATH = Some (Json db) \<and> embedText query = Inr q
        \<longrightarrow> snd (search engineOrder embedText fs query topN) = Resolved
          \<and> snd (search_v301 embedText fs query) = Resolved
          \<and> set (errors (fst (search engineOrder embedText fs query topN))) \<subseteq> {DatabaseEmpty}
          \<and> set (errors (fst (search_v301 embedText fs query))) \<subseteq> {DatabaseEmpty})"
proof (intro conjI impI)
  show "(fst (search engineOrder embedText fs query topN)
       = [Console LOG (Searching query topN),
          Console ERROR (DatabaseFileNotFound DB_PATH), Console ERROR RunIndexFirst])
     = (fs DB_PATH = None \<or> (\<exists>s. fs DB_PATH = Some (Text s)))"
    by (auto simp: search_def Let_def split: option.splits content.splits sum.splits list.splits)
  show "(fst (search_v301 embedText fs query)
       = [Console LOG (SearchingFor query),
          Console ERROR (DatabaseFileNotFound DB_PATH), Console ERROR RunIndexFirst])
     = (fs DB_PATH = None \<or> (\<exists>s. fs DB_PATH = Some (Text s)))"
    by (auto simp: search_v301_def Let_def split: option.splits content.splits sum.splits)
next
  assume "fs DB_PATH = None \<or> (\<exists>s. fs DB_PATH = Some (Text s))"
  then show "snd (search engineOrder embedText fs query topN) = Resolved"
    and "snd (search_v301 embedText fs query) = Resolved"
    by (auto simp: search_def search_v301_def)
next
  assume "fs DB_PATH = Some JsonNull"
  then show "search engineOrder embedText fs query topN
              = ([Console LOG (Searching query topN)], Rejected TypeError)"
    and "search_v301 embedText fs query
              = ([Console LOG (SearchingFor query)], Rejected TypeError)"
    by (simp_all add: search_def search_v301_def)
next
  assume "(fs DB_PATH = Some JsonEmptyObject \<or> fs DB_PATH = Some JsonMissingEmbedding)
         \<and> embedText query = Inr q"
  then show "search engineOrder embedText fs query topN
              = ([Console LOG (Searching query topN)], Rejected TypeError)"
    and "search_v301 embedText fs query
              = ([Console LOG (SearchingFor query)], Rejected TypeError)"
    by (auto simp: search_def search_v301_def)
next
  assume a: "fs DB_PATH = Some (Json db) \<and> embedText query = Inr q"
  then show "snd (search engineOrder embedText fs query topN) = Resolved"
    by (simp add: search_def Let_def)
  show "snd (search_v301 embedText fs query) = Resolved"
    using a by (simp add: search_v301_def Let_def split: option.splits)
  show "set (errors (fst (search engineOrder embedText fs query topN))) \<subseteq> {DatabaseEmpty}"
    using a by (simp add: search_def Let_def errors_append errors_showResults split: list.splits)
  show "set (errors (fst (search_v301 embedText fs query))) \<subseteq> {DatabaseEmpty}"
    using a by (simp add: search_v301_def Let_def split: option.splits)
qed

theorem search_load_failure_witness:
  "[DB_PATH \<mapsto> Text ''[{ \"filePath\": ''] DB_PATH = Some (Text ''[{ \"filePath\": '')
   \<and> search (\<lambda>ms. ms) (\<lambda>query. Inr [Num 1, Num 0]) [DB_PATH \<mapsto> Text ''[{ \"filePath\": ''] ''cat'' 4
      = ([Console LOG (Searching ''cat'' 4),
          Console ERROR (DatabaseFileNotFound DB_PATH), Console ERROR RunIndexFirst], Resolved)
   \<and> search (\<lambda>ms. ms) (\<lambda>query. Inr [Num 1, Num 0]) [DB_PATH \<mapsto> JsonNull] ''cat'' 4
      = ([Console LOG (Searching ''cat'' 4)], Rejected TypeError)
   \<and> search (\<lambda>ms. ms) (\<lambda>query. Inr [Num 1, Num 0]) [DB_PATH \<mapsto> JsonMissingEmbedding] ''cat'' 4
      = ([Console LOG (Searching ''cat'' 4)], Rejected TypeError)
   \<and> search_v301 (\<lambda>query. Inr [Num 1, Num 0]) [DB_PATH \<mapsto> JsonEmptyObject] ''cat''
      = ([Console LOG (SearchingFor ''cat'')], Rejected TypeError)
   \<and> snd (search (\<lambda>ms. ms) (\<lambda>query. Inr [Num 1, Num 0])
        [DB_PATH \<mapsto> Json [\<lparr>filePath = ''a.png'', embedding = [NaN, NaN]\<rparr>]] ''cat'' 4) = Resolved
   \<and> set (errors (fst (search (\<lambda>ms. ms) (\<lambda>query. Inr [Num 1, Num 0])
        [DB_PATH \<mapsto> Json [\<lparr>filePath = ''a.png'', embedding = [NaN, NaN]\<rparr>]] ''cat'' 4)))
      \<subseteq> {DatabaseEmpty}"
proof -
  let ?e = "\<lambda>ms :: match list. ms"
  let ?t = "\<lambda>query :: string. Inr [Num 1, Num 0] :: string + number list"
  let ?bad = "[DB_PATH \<mapsto> Text ''[{ \"filePath\": '']"
  let ?nan = "[DB_PATH \<mapsto> Json [\<lparr>filePath = ''a.png'', embedding = [NaN, NaN]\<rparr>]]"
  have h1: "?bad DB_PATH = Some (Text ''[{ \"filePath\": '')" by simp
  then have h1': "?bad DB_PATH = None \<or> (\<exists>s. ?bad DB_PATH = Some (Text s))" by blast
  note t1 = search_load_failure [where fs = ?bad and engineOrder = ?e and embedText = ?t
      and query = "''cat''" and topN = 4]
  have "fst (search ?e ?t ?bad ''cat'' 4)
      = [Console LOG (Searching ''cat'' 4),
         Console ERROR (DatabaseFileNotFound DB_PATH), Console ERROR RunIndexFirst]"
    using t1 [THEN conjunct1] h1' by blast
  moreover have "snd (search ?e ?t ?bad ''cat'' 4) = Resolved"
    using t1 [THEN conjunct2, THEN conjunct2, THEN conjunct1] h1' by blast
  ultimately have c1: "search ?e ?t ?bad ''cat'' 4
      = ([Console LOG (Searching ''cat'' 4),
          Console ERROR (DatabaseFileNotFound DB_PATH), Console ERROR RunIndexFirst], Resolved)"
    by (simp add: prod_eq_iff)
  note t2 = search_load_failure [where fs = "[DB_PATH \<mapsto> JsonNull]" and engineOrder = ?e
      and embedText = ?t and query = "''cat''" and topN = 4]
  have c2: "search ?e ?t [DB_PATH \<mapsto> JsonNull] ''cat'' 4
      = ([Console LOG (Searching ''cat'' 4)], Rejected TypeError)"
    using t2 [THEN conjunct2, THEN conjunct2, THEN conjunct2, THEN conjunct1] by simp
  note t3 = search_load_failure [where fs = "[DB_PATH \<mapsto> JsonMissingEmbedding]"
      and engineOrder = ?e and embedText = ?t and query = "''cat''" and topN = 4
      and q = "[Num 1, Num 0]"]
  have c3: "search ?e ?t [DB_PATH \<mapsto> JsonMissingEmbedding] ''cat'' 4
      = ([Console LOG (Searching ''cat'' 4)], Rejected TypeError)"
    using t3 [THEN conjunct2, THEN conjunct2, THEN conjunct2, THEN conjunct2, THEN conjunct1]
    by simp
  note t4 = search_load_failure [where fs = "[DB_PATH \<mapsto> JsonEmptyObject]"
      and engineOrder = ?e and embedText = ?t and query = "''cat''" and topN = 4
      and q = "[Num 1, Num 0]"]
  have c4: "search_v301 ?t [DB_PATH \<mapsto> JsonEmptyObject] ''cat''
      = ([Console LOG (SearchingFor ''cat'')], Rejected TypeError)"
    using t4 [THEN conjunct2, THEN conjunct2, THEN conjunct2, THEN conjunct2, THEN conjunct1]
    by simp
  note t5 = search_load_failure [where fs = ?nan and engineOrder = ?e and embedText = ?t
      and query = "''cat''" and topN = 4 and q = "[Num 1, Num 0]"
      and db = "[\<lparr>filePath = ''a.png'', embedding = [NaN, NaN]\<rparr>]"]
  have c5: "snd (search ?e ?t ?nan ''cat'' 4) = Resolved"
    and c6: "set (errors (fst (search ?e ?t ?nan ''cat'' 4))) \<subseteq> {DatabaseEmpty}"
    using t5 [THEN conjunct2, THEN conjunct2, THEN conjunct2, THEN conjunct2, THEN conjunct2]
    by simp_all
  show ?thesis
    by (intro conjI h1 c1 c2 c3 c4 c5 c6)
qed

lemma score_nan: "cosineSimilarity [Num 1, Num 0] [NaN, NaN] = NaN"
  by (simp add: similarity_defs)

lemma basename_a: "basename ''a.png'' = ''a.png''"
  by code_simp

text \<open>
  A database file with truncated JSON gives exactly the outcome of a missing file, and
  a record whose vector entries are strings gives no error at all.
\<close>

theorem search_corrupt_reported_as_not_found_counterexample:
  "search (\<lambda>ms. ms) (\<lambda>query. Inr [Num 1, Num 0]) [DB_PATH \<mapsto> Text ''[{ \"filePath\": ''] ''cat'' 4
     = search (\<lambda>ms. ms) (\<lambda>query. Inr [Num 1, Num 0]) Map.empty ''cat'' 4
   \<and> search (\<lambda>ms. ms) (\<lambda>query. Inr [Num 1, Num 0]) [DB_PATH \<mapsto> Text ''[{ \"filePath\": ''] ''cat'' 4
     = ([Console LOG (Searching ''cat'' 4),
         Console ERROR (DatabaseFileNotFound ''./db.json''), Console ERROR RunIndexFirst], Resolved)
   \<and> search_v301 (\<lambda>query. Inr [Num 1, Num 0]) [DB_PATH \<mapsto> Text ''[{ \"filePath\": ''] ''cat''
     = search_v301 (\<lambda>query. Inr [Num 1, Num 0]) Map.empty ''cat''
   \<and> search (\<lambda>ms. ms) (\<lambda>query. Inr [Num 1, Num 0])
        [DB_PATH \<mapsto> Json [\<lparr>filePath = ''a.png'', embedding = [NaN, NaN]\<rparr>]] ''cat'' 4
     = ([Console LOG (Searching ''cat'' 4),
         Console LOG NoMeaningfulMatches,
         Console LOG (BestMatchBelowThreshold ''a.png'' NaN (Num 28))], Resolved)"
  by (simp add: search_def search_v301_def DB_PATH_def Let_def ranking_defs score_nan basename_a)


section \<open>Properties of the indexing\<close>

subsection \<open>The loop over the files\<close>

lemma limitReached_attemptedFrom:
  "limitReached limit c \<Longrightarrow> attemptedFrom limit c files = []"
  by (auto simp: limitReached_def attemptedFrom_def split: option.splits)

lemma not_limitReached_attemptedFrom:
  assumes "\<not> limitReached limit c"
  shows "attemptedFrom limit c (f # files) = f # attemptedFrom limit (c + 1) files"
proof (cases limit)
  case None
  then show ?thesis by (simp add: attemptedFrom_def)
next
  case (Some l)
  show ?thesis
  proof (cases "l = 0")
    case True
    then show ?thesis using Some by (simp add: attemptedFrom_def)
  next
    case False
    then have "int c < l"
      using assms Some by (simp add: limitReached_def)
    then have "nat (l - int c) = Suc (nat (l - int (c + 1)))" by linarith
    then show ?thesis using Some False by (simp add: attemptedFrom_def)
  qed
qed

lemma indexLoop_filePaths:
  "map filePath (fst (indexLoop lvl embedImage limit n files c db out))
     = map filePath db @ filter (embeds embedImage) (attemptedFrom limit c files)"
proof (induction files arbitrary: c db out)
  case Nil
  then show ?case by (simp add: attemptedFrom_def split: option.splits)
next
  case (Cons f files)
  show ?case
  proof (cases "limitReached limit c")
    case True
    then show ?thesis by (simp add: limitReached_attemptedFrom)
  next
    case False
    then show ?thesis
      using Cons.IH not_limitReached_attemptedFrom [OF False, of f files]
      by (cases "embedImage f") (simp_all add: embeds_def)
  qed
qed

lemma skipped_append: "skipped (xs @ ys) = skipped xs @ skipped ys"
  by (induction xs rule: skipped.induct) simp_all

lemma indexLoop_skipped:
  "\<not> truthy limit \<Longrightarrow>
   skipped (snd (indexLoop lvl embedImage limit n files c db out))
     = skipped out @ filter (\<lambda>f. \<not> embeds embedImage f) files"
proof (induction files arbitrary: c db out)
  case Nil
  then show ?case by simp
next
  case (Cons f files)
  have "\<not> limitReached limit c"
    using Cons.prems by (auto simp: limitReached_def truthy_def split: option.splits)
  then show ?case
    using Cons by (cases "embedImage f") (simp_all add: embeds_def skipped_append)
qed

lemma indexLoop_errors:
  "lvl \<noteq> ERROR \<Longrightarrow> errors (snd (indexLoop lvl embedImage limit n files c db out)) = errors out"
proof (induction files arbitrary: c db out)
  case Nil
  then show ?case by simp
next
  case (Cons f files)
  then show ?case
    by (cases "embedImage f"; cases lvl) (simp_all add: errors_append)
qed

lemma errors_startOutput: "errors (startOutput limit) = []"
  by (simp add: startOutput_def)

lemma skipped_startOutput: "skipped (startOutput limit) = []"
  by (simp add: startOutput_def)

subsection \<open>The directory walk\<close>

lemma walk_v301_output:
  "errors (snd (findImageFilesRecursive_v301 dir d)) = []
   \<and> skipped (snd (findImageFilesRecursive_v301 dir d)) = []"
  "errors (snd (forEntries_v301 dir es sofar)) = errors (snd sofar)
   \<and> skipped (snd (forEntries_v301 dir es sofar)) = skipped (snd sofar)"
  by (induction dir d and dir es sofar rule: findImageFilesRecursive_v301_forEntries_v301.induct)
     (simp_all add: errors_append skipped_append Let_def)

lemma forEntries_v301_prefix:
  "forEntries_v301 dir es sofar
     = (fst sofar @ fst (forEntries_v301 dir es ([], [])),
        snd sofar @ snd (forEntries_v301 dir es ([], [])))"
proof (induction es arbitrary: sofar)
  case Nil
  then show ?case by simp
next
  case (Cons e es)
  show ?case
  proof (cases e)
    case (FileEnt name)
    then show ?thesis
      using Cons [of "(fst sofar @ [path_join dir name], snd sofar)"]
        Cons [of "([path_join dir name], [])"] Cons [of sofar]
      by simp
  next
    case (DirEnt name sub)
    let ?r = "findImageFilesRecursive_v301 (path_join dir name) sub"
    show ?thesis
      using DirEnt Cons [of "(fst sofar @ fst ?r, snd sofar @ snd ?r)"]
        Cons [of "(fst ?r, snd ?r)"]
      by (simp add: Let_def)
  qed
qed

lemma forEntries_v301_append:
  "forEntries_v301 dir (es1 @ es2) sofar = forEntries_v301 dir es2 (forEntries_v301 dir es1 sofar)"
proof (induction es1 arbitrary: sofar)
  case Nil
  then show ?case by simp
next
  case (Cons e es1)
  then show ?case by (cases e) (simp_all add: Let_def)
qed

lemma walk_v301_skips_unreadable:
  "fst (findImageFilesRecursive_v301 dir (Listing (es1 @ DirEnt name (ReadError msg) # es2)))
     = fst (findImageFilesRecursive_v301 dir (Listing (es1 @ es2)))
   \<and> Console WARN (CouldNotReadDirectory (path_join dir name) msg)
       \<in> set (snd (findImageFilesRecursive_v301 dir (Listing (es1 @ DirEnt name (ReadError msg) # es2))))"
proof -
  let ?a = "forEntries_v301 dir es1 ([], [])"
  let ?w = "Console WARN (CouldNotReadDirectory (path_join dir name) msg)"
  have 1: "forEntries_v301 dir (es1 @ DirEnt name (ReadError msg) # es2) ([], [])
        = forEntries_v301 dir es2 (fst ?a, snd ?a @ [?w])"
    by (simp add: forEntries_v301_append Let_def)
  have 2: "forEntries_v301 dir (es1 @ es2) ([], []) = forEntries_v301 dir es2 (fst ?a, snd ?a)"
    by (simp add: forEntries_v301_append)
  show ?thesis
    using forEntries_v301_prefix [of dir es2 "(fst ?a, snd ?a @ [?w])"]
      forEntries_v301_prefix [of dir es2 "(fst ?a, snd ?a)"]
    by (simp add: 1 2)
qed

text \<open>
  The walk of version 3.4.0 fails exactly when some directory of the tree cannot be
  read; when it succeeds, the walk of version 3.0.1 finds the same files and warns of
  nothing.
\<close>

lemma walk_fails_iff_unreadable:
  "(\<exists>err. findImageFilesRecursive dir d = Inl err) = unreadable d"
  "(\<exists>err. forEntries dir es imageFiles = Inl err) = unreadable_among es"
  by (induction dir d and dir es imageFiles rule: findImageFilesRecursive_forEntries.induct)
     (auto split: sum.splits)

lemma walk_v301_same_files:
  "findImageFilesRecursive dir d = Inr imageFiles
     \<Longrightarrow> findImageFilesRecursive_v301 dir d = (imageFiles, [])"
  "forEntries dir es found = Inr imageFiles
     \<Longrightarrow> forEntries_v301 dir es (found, out) = (imageFiles, out)"
  by (induction dir d and dir es found arbitrary: imageFiles and imageFiles out
        rule: findImageFilesRecursive_forEntries.induct)
     (auto split: sum.splits simp: Let_def)

lemma forEntries_Inl:
  "\<exists>err. forEntries dir (es1 @ DirEnt name (ReadError msg) # es2) imageFiles = Inl err"
proof (induction es1 arbitrary: imageFiles)
  case Nil
  then show ?case by simp
next
  case (Cons e es1)
  then show ?case
    by (cases e) (auto split: sum.splits)
qed

subsection \<open>Concrete file names\<close>

lemma joins:
  "path_join ''photos'' ''a.png'' = ''photos/a.png''"
  "path_join ''photos'' ''c.webp'' = ''photos/c.webp''"
  "path_join ''photos'' ''locked'' = ''photos/locked''"
  "path_join ''photos'' ''ok'' = ''photos/ok''"
  "path_join ''photos'' ''new'' = ''photos/new''"
  "path_join ''photos/ok'' ''B.JPG'' = ''photos/ok/B.JPG''"
  "path_join ''./photos'' ''a.png'' = ''photos/a.png''"
  by code_simp+

lemma isImage_a: "isImage ''a.png''"
  by code_simp

lemma isImage_B: "isImage ''B.JPG''"
  by code_simp

lemma notImage: "\<not> isImage ''notes.txt''"
  by code_simp

subsection \<open>Unreadable directories\<close>

text \<open>
  C3. The claim holds of version 3.0.1 (\<open>walk_v301_skips_unreadable\<close>: the unreadable
  subdirectory contributes a warning and nothing else). It fails in version 3.4.0,
  which has lost the \<^verbatim>\<open>try\<close>: whenever the listing of the root holds a subdirectory
  that cannot be read, the run ends with the two error lines and writes nothing, whatever
  else the tree holds. On the tree below version 3.0.1 finds both images and warns about
  the locked directory; version 3.4.0 aborts.
\<close>

theorem indexImages_aborts_on_unreadable_subdirectory:
  "(\<exists>err. indexImages embedImage imagesDir
        (Listing (es1 @ DirEnt name (ReadError msg) # es2)) limit fs
      = (startOutput limit @ [Console ERROR (ErrorDuringIndexing err),
                              Console ERROR (EnsureDirectoryExists imagesDir)], fs))
   \<and> indexImages embedImage ''photos''
        (Listing [FileEnt ''a.png'', DirEnt ''locked'' (ReadError ''EACCES''),
                  DirEnt ''ok'' (Listing [FileEnt ''B.JPG'', FileEnt ''notes.txt''])]) limit fs
      = (startOutput limit @ [Console ERROR (ErrorDuringIndexing ''EACCES''),
                              Console ERROR (EnsureDirectoryExists ''photos'')], fs)
   \<and> findImageFilesRecursive_v301 ''photos''
        (Listing [FileEnt ''a.png'', DirEnt ''locked'' (ReadError ''EACCES''),
                  DirEnt ''ok'' (Listing [FileEnt ''B.JPG'', FileEnt ''notes.txt''])])
      = ([''photos/a.png'', ''photos/ok/B.JPG''],
         [Console WARN (CouldNotReadDirectory ''photos/locked'' ''EACCES'')])"
proof -
  obtain err where "forEntries imagesDir (es1 @ DirEnt name (ReadError msg) # es2) [] = Inl err"
    using forEntries_Inl by blast
  then have "indexImages embedImage imagesDir
        (Listing (es1 @ DirEnt name (ReadError msg) # es2)) limit fs
      = (startOutput limit @ [Console ERROR (ErrorDuringIndexing err),
                              Console ERROR (EnsureDirectoryExists imagesDir)], fs)"
    by (simp add: indexImages_def)
  then show ?thesis
    by (auto simp: indexImages_def isImage_a isImage_B notImage joins)
qed

subsection \<open>Runs that find no file\<close>

text \<open>
  C8. When the walk finds no media file the run stops before the loop: the files are
  exactly as before (no write of the database file, an existing snapshot untouched), the
  output is the start lines followed by one \<^verbatim>\<open>console.log\<close> line (``found 0 images'' in
  3.4.0; the warnings of the walk and ``no images found'' in 3.0.1), and nothing is
  printed with \<^verbatim>\<open>console.error\<close>.
\<close>

theorem indexImages_no_files_no_write:
  "(findImageFilesRecursive imagesDir tree = Inr []
      \<longrightarrow> indexImages embedImage imagesDir tree limit fs
            = (startOutput limit @ [Console LOG (FoundTotal 0)], fs)
          \<and> errors (fst (indexImages embedImage imagesDir tree limit fs)) = [])
   \<and> (fst (findImageFilesRecursive_v301 rootDir tree) = []
      \<longrightarrow> indexImages_v301 embedImage rootDir tree limit fs
            = (startOutput limit @ snd (findImageFilesRecursive_v301 rootDir tree)
                 @ [Console LOG (NoImagesFound rootDir)], fs)
          \<and> errors (fst (indexImages_v301 embedImage rootDir tree limit fs)) = [])"
  by (simp add: indexImages_def indexImages_v301_def Let_def errors_append errors_startOutput
      walk_v301_output)

theorem indexImages_no_files_no_write_witness:
  "findImageFilesRecursive ''photos'' (Listing [FileEnt ''notes.txt'', DirEnt ''new'' (Listing [])])
     = Inr []
   \<and> fst (findImageFilesRecursive_v301 ''photos''
        (Listing [FileEnt ''notes.txt'', DirEnt ''new'' (Listing [])])) = []
   \<and> indexImages (\<lambda>file. Inr [Num 1, Num 0]) ''photos''
        (Listing [FileEnt ''notes.txt'', DirEnt ''new'' (Listing [])]) None
        [DB_PATH \<mapsto> Json [\<lparr>filePath = ''old/c.png'', embedding = [Num 1, Num 0]\<rparr>]]
      = ([Console LOG StartingIndexing, Console LOG (FoundTotal 0)],
         [DB_PATH \<mapsto> Json [\<lparr>filePath = ''old/c.png'', embedding = [Num 1, Num 0]\<rparr>]])
   \<and> indexImages_v301 (\<lambda>file. Inr [Num 1, Num 0]) ''photos''
        (Listing [FileEnt ''notes.txt'', DirEnt ''new'' (Listing [])]) None
        [DB_PATH \<mapsto> Json [\<lparr>filePath = ''old/c.png'', embedding = [Num 1, Num 0]\<rparr>]]
      = ([Console LOG StartingIndexing, Console LOG (NoImagesFound ''photos'')],
         [DB_PATH \<mapsto> Json [\<lparr>filePath = ''old/c.png'', embedding = [Num 1, Num 0]\<rparr>]])"
proof -
  let ?tree = "Listing [FileEnt ''notes.txt'', DirEnt ''new'' (Listing [])]"
  have h1: "findImageFilesRecursive ''photos'' ?tree = Inr []"
    by (simp add: notImage)
  have h2: "findImageFilesRecursive_v301 ''photos'' ?tree = ([], [])"
    by (simp add: notImage)
  show ?thesis
    using h1 h2
      indexImages_no_files_no_write [of "''photos''" ?tree "\<lambda>file. Inr [Num 1, Num 0]" None
        "[DB_PATH \<mapsto> Json [\<lparr>filePath = ''old/c.png'', embedding = [Num 1, Num 0]\<rparr>]]" "''photos''"]
    by (simp add: startOutput_def truthy_def)
qed

subsection \<open>Runs that find files\<close>

lemma indexLoop_length:
  "\<not> truthy limit \<Longrightarrow>
   length (fst (indexLoop lvl embedImage limit n files 0 [] out))
     = length (filter (embeds embedImage) files)"
proof -
  assume "\<not> truthy limit"
  then have "map filePath (fst (indexLoop lvl embedImage limit n files 0 [] out))
      = filter (embeds embedImage) files"
    by (auto simp: indexLoop_filePaths attemptedFrom_def truthy_def split: option.splits)
  then have "length (map filePath (fst (indexLoop lvl embedImage limit n files 0 [] out)))
      = length (filter (embeds embedImage) files)"
    by (rule arg_cong)
  then show ?thesis by simp
qed

text \<open>
  C7. For every directory with \<open>N\<close> media files the provider succeeds on and \<open>M\<close> it
  fails on, a run without limit writes a database of exactly \<open>N\<close> records, prints a skip
  line for each of the \<open>M\<close> files, in order, prints nothing with \<^verbatim>\<open>console.error\<close> and
  ends with the completion line. The directory holds at least one media file: the
  directory without any is the separate case of C8, where nothing is written. In
  version 3.4.0 the walk is taken to succeed; where it does not, the run aborts, which
  is the defect of C3.
\<close>

theorem indexImages_skips_failed_embeddings:
  assumes "imageFiles \<noteq> []" and "\<not> truthy limit"
  shows "(findImageFilesRecursive imagesDir tree = Inr imageFiles
      \<longrightarrow> (\<exists>db out. indexImages embedImage imagesDir tree limit fs
               = (out @ [Console LOG (IndexingComplete (length db) DB_PATH)],
                  fs(DB_PATH \<mapsto> Json db))
           \<and> length db = length (filter (embeds embedImage) imageFiles)
           \<and> skipped out = filter (\<lambda>file. \<not> embeds embedImage file) imageFiles
           \<and> errors out = []))
   \<and> (fst (findImageFilesRecursive_v301 rootDir tree) = imageFiles
      \<longrightarrow> (\<exists>db out. indexImages_v301 embedImage rootDir tree limit fs
               = (out @ [Console LOG (IndexingComplete (length db) DB_PATH)],
                  fs(DB_PATH \<mapsto> Json db))
           \<and> length db = length (filter (embeds embedImage) imageFiles)
           \<and> skipped out = filter (\<lambda>file. \<not> embeds embedImage file) imageFiles
           \<and> errors out = []))"
proof (intro conjI impI)
  assume e: "findImageFilesRecursive imagesDir tree = Inr imageFiles"
  let ?out0 = "startOutput limit @ [Console LOG (FoundTotal (length imageFiles))]"
  let ?r = "indexLoop LOG embedImage limit (length imageFiles) imageFiles 0 [] ?out0"
  have "indexImages embedImage imagesDir tree limit fs
      = (snd ?r @ [Console LOG (IndexingComplete (length (fst ?r)) DB_PATH)],
         fs(DB_PATH \<mapsto> Json (fst ?r)))"
    using e assms(1) by (simp add: indexImages_def Let_def)
  moreover have "length (fst ?r) = length (filter (embeds embedImage) imageFiles)"
    using assms(2) by (rule indexLoop_length)
  moreover have "skipped (snd ?r) = filter (\<lambda>file. \<not> embeds embedImage file) imageFiles"
    using assms(2) by (simp add: indexLoop_skipped skipped_append skipped_startOutput)
  moreover have "errors (snd ?r) = []"
    by (simp add: indexLoop_errors errors_append errors_startOutput)
  ultimately show "\<exists>db out. indexImages embedImage imagesDir tree limit fs
               = (out @ [Console LOG (IndexingComplete (length db) DB_PATH)],
                  fs(DB_PATH \<mapsto> Json db))
           \<and> length db = length (filter (embeds embedImage) imageFiles)
           \<and> skipped out = filter (\<lambda>file. \<not> embeds embedImage file) imageFiles
           \<and> errors out = []"
    by blast
next
  assume e: "fst (findImageFilesRecursive_v301 rootDir tree) = imageFiles"
  let ?w = "snd (findImageFilesRecursive_v301 rootDir tree)"
  let ?out0 = "(startOutput limit @ ?w) @ [Console LOG (FoundTotal (length imageFiles))]"
  let ?r = "indexLoop WARN embedImage limit (length imageFiles) imageFiles 0 [] ?out0"
  have "indexImages_v301 embedImage rootDir tree limit fs
      = (snd ?r @ [Console LOG (IndexingComplete (length (fst ?r)) DB_PATH)],
         fs(DB_PATH \<mapsto> Json (fst ?r)))"
    using e assms(1) by (simp add: indexImages_v301_def Let_def)
  moreover have "length (fst ?r) = length (filter (embeds embedImage) imageFiles)"
    using assms(2) by (rule indexLoop_length)
  moreover have "skipped (snd ?r) = filter (\<lambda>file. \<not> embeds embedImage file) imageFiles"
    using assms(2)
    by (simp add: indexLoop_skipped skipped_append skipped_startOutput walk_v301_output)
  moreover have "errors (snd ?r) = []"
    by (simp add: indexLoop_errors errors_append errors_startOutput walk_v301_output)
  ultimately show "\<exists>db out. indexImages_v301 embedImage rootDir tree limit fs
               = (out @ [Console LOG (IndexingComplete (length db) DB_PATH)],
                  fs(DB_PATH \<mapsto> Json db))
           \<and> length db = length (filter (embeds embedImage) imageFiles)
           \<and> skipped out = filter (\<lambda>file. \<not> embeds embedImage file) imageFiles
           \<and> errors out = []"
    by blast
qed

lemma isImage_c: "isImage ''c.webp''"
  by code_simp

theorem indexImages_skips_failed_embeddings_witness:
  "[''photos/a.png'', ''photos/ok/B.JPG''] \<noteq> []
   \<and> \<not> truthy None
   \<and> findImageFilesRecursive ''photos''
        (Listing [FileEnt ''a.png'', DirEnt ''ok'' (Listing [FileEnt ''B.JPG''])])
     = Inr [''photos/a.png'', ''photos/ok/B.JPG'']
   \<and> fst (findImageFilesRecursive_v301 ''photos''
        (Listing [FileEnt ''a.png'', DirEnt ''ok'' (Listing [FileEnt ''B.JPG''])]))
     = [''photos/a.png'', ''photos/ok/B.JPG'']
   \<and> indexImages (\<lambda>file. if file = ''photos/a.png'' then Inr [Num 1, Num 0] else Inl ''unsupported'')
        ''photos'' (Listing [FileEnt ''a.png'', DirEnt ''ok'' (Listing [FileEnt ''B.JPG''])])
        None Map.empty
     = ([Console LOG StartingIndexing,
         Console LOG (FoundTotal 2),
         Console LOG (Processing 1 2 ''photos/a.png''),
         Console LOG (Processing 2 2 ''photos/ok/B.JPG''),
         Console LOG (SkippingFile ''photos/ok/B.JPG'' ''unsupported''),
         Console LOG (IndexingComplete 1 ''./db.json'')],
        [DB_PATH \<mapsto> Json [\<lparr>filePath = ''photos/a.png'', embedding = [Num 1, Num 0]\<rparr>]])
   \<and> indexImages_v301 (\<lambda>file. if file = ''photos/a.png'' then Inr [Num 1, Num 0] else Inl ''unsupported'')
        ''photos'' (Listing [FileEnt ''a.png'', DirEnt ''ok'' (Listing [FileEnt ''B.JPG''])])
        None Map.empty
     = ([Console LOG StartingIndexing,
         Console LOG (FoundTotal 2),
         Console LOG (Processing 1 2 ''photos/a.png''),
         Console LOG (Processing 2 2 ''photos/ok/B.JPG''),
         Console WARN (SkippingFile ''photos/ok/B.JPG'' ''unsupported''),
         Console LOG (IndexingComplete 1 ''./db.json'')],
        [DB_PATH \<mapsto> Json [\<lparr>filePath = ''photos/a.png'', embedding = [Num 1, Num 0]\<rparr>]])"
proof -
  let ?tree = "Listing [FileEnt ''a.png'', DirEnt ''ok'' (Listing [FileEnt ''B.JPG''])]"
  let ?files = "[''photos/a.png'', ''photos/ok/B.JPG'']"
  let ?embed = "\<lambda>file. if file = ''photos/a.png'' then Inr [Num 1, Num 0] else Inl ''unsupported''"
  have h1: "?files \<noteq> []" by simp
  have h2: "\<not> truthy None" by (simp add: truthy_def)
  have h3: "findImageFilesRecursive ''photos'' ?tree = Inr ?files"
    by (simp add: isImage_a isImage_B joins)
  have h4: "fst (findImageFilesRecursive_v301 ''photos'' ?tree) = ?files"
    by (simp add: isImage_a isImage_B joins)
  have v: "indexImages ?embed ''photos'' ?tree None Map.empty
     = ([Console LOG StartingIndexing,
         Console LOG (FoundTotal 2),
         Console LOG (Processing 1 2 ''photos/a.png''),
         Console LOG (Processing 2 2 ''photos/ok/B.JPG''),
         Console LOG (SkippingFile ''photos/ok/B.JPG'' ''unsupported''),
         Console LOG (IndexingComplete 1 ''./db.json'')],
        [DB_PATH \<mapsto> Json [\<lparr>filePath = ''photos/a.png'', embedding = [Num 1, Num 0]\<rparr>]])"
    by (simp add: indexImages_def isImage_a isImage_B joins Let_def startOutput_def
        truthy_def limitReached_def DB_PATH_def)
  have w: "indexImages_v301 ?embed ''photos'' ?tree None Map.empty
     = ([Console LOG StartingIndexing,
         Console LOG (FoundTotal 2),
         Console LOG (Processing 1 2 ''photos/a.png''),
         Console LOG (Processing 2 2 ''photos/ok/B.JPG''),
         Console WARN (SkippingFile ''photos/ok/B.JPG'' ''unsupported''),
         Console LOG (IndexingComplete 1 ''./db.json'')],
        [DB_PATH \<mapsto> Json [\<lparr>filePath = ''photos/a.png'', embedding = [Num 1, Num 0]\<rparr>]])"
    by (simp add: indexImages_v301_def isImage_a isImage_B joins Let_def startOutput_def
        truthy_def limitReached_def DB_PATH_def)
  note t = indexImages_skips_failed_embeddings [OF h1 h2, where imagesDir = "''photos''"
      and rootDir = "''photos''" and tree = ?tree and embedImage = ?embed and fs = Map.empty]
  have "\<exists>db out. indexImages ?embed ''photos'' ?tree None Map.empty
          = (out @ [Console LOG (IndexingComplete (length db) DB_PATH)], [DB_PATH \<mapsto> Json db])
        \<and> length db = length (filter (embeds ?embed) ?files)
        \<and> skipped out = filter (\<lambda>file. \<not> embeds ?embed file) ?files
        \<and> errors out = []"
    by (rule t [THEN conjunct1, THEN mp]) (rule h3)
  moreover have "\<exists>db out. indexImages_v301 ?embed ''photos'' ?tree None Map.empty
          = (out @ [Console LOG (IndexingComplete (length db) DB_PATH)], [DB_PATH \<mapsto> Json db])
        \<and> length db = length (filter (embeds ?embed) ?files)
        \<and> skipped out = filter (\<lambda>file. \<not> embeds ?embed file) ?files
        \<and> errors out = []"
    by (rule t [THEN conjunct2, THEN mp]) (rule h4)
  ultimately show ?thesis
    using h1 h2 h3 h4 v w by (intro conjI)
qed

lemma subseq_attempted: "subseq (filter P (attempted limit files)) files"
proof -
  have "subseq (filter P (attempted limit files)) (attempted limit files)"
    by simp
  moreover have "subseq (attempted limit files) files"
    by (simp add: attempted_def attemptedFrom_def sublist_imp_subseq split: option.splits)
  ultimately show ?thesis
    by (rule subseq_order.trans)
qed

lemma indexLoop_attempted:
  "map filePath (fst (indexLoop lvl embedImage limit n files 0 [] out))
     = filter (embeds embedImage) (attempted limit files)"
  by (simp add: indexLoop_filePaths attempted_def)

text \<open>
  C10. Whenever a run writes the database (the walk yields at least one file), the file
  paths of the written records are, in order, exactly the attempted files on which the
  provider succeeded, the attempted files being all enumerated files or, under a limit,
  the first \<open>limit\<close> of them; so the written paths are a subsequence of the enumerated
  list: nothing is reordered and nothing is added.
\<close>

theorem indexImages_preserves_discovery_order:
  assumes "imageFiles \<noteq> []"
  shows "(findImageFilesRecursive imagesDir tree = Inr imageFiles
      \<longrightarrow> (\<exists>db. snd (indexImages embedImage imagesDir tree limit fs) = fs(DB_PATH \<mapsto> Json db)
           \<and> map filePath db = filter (embeds embedImage) (attempted limit imageFiles)
           \<and> subseq (map filePath db) imageFiles))
   \<and> (fst (findImageFilesRecursive_v301 rootDir tree) = imageFiles
      \<longrightarrow> (\<exists>db. snd (indexImages_v301 embedImage rootDir tree limit fs) = fs(DB_PATH \<mapsto> Json db)
           \<and> map filePath db = filter (embeds embedImage) (attempted limit imageFiles)
           \<and> subseq (map filePath db) imageFiles))"
  using assms
  by (auto simp: indexImages_def indexImages_v301_def Let_def indexLoop_attempted subseq_attempted)

theorem indexImages_preserves_discovery_order_witness:
  "[''photos/a.png'', ''photos/ok/B.JPG'', ''photos/c.webp''] \<noteq> []
   \<and> findImageFilesRecursive ''photos''
      (Listing [FileEnt ''a.png'', DirEnt ''ok'' (Listing [FileEnt ''B.JPG'']), FileEnt ''c.webp''])
     = Inr [''photos/a.png'', ''photos/ok/B.JPG'', ''photos/c.webp'']
   \<and> fst (findImageFilesRecursive_v301 ''photos''
      (Listing [FileEnt ''a.png'', DirEnt ''ok'' (Listing [FileEnt ''B.JPG'']), FileEnt ''c.webp'']))
     = [''photos/a.png'', ''photos/ok/B.JPG'', ''photos/c.webp'']
   \<and> snd (indexImages
        (\<lambda>file. if file = ''photos/ok/B.JPG'' then Inl ''unsupported'' else Inr [Num 1, Num 0])
        ''photos''
        (Listing [FileEnt ''a.png'', DirEnt ''ok'' (Listing [FileEnt ''B.JPG'']), FileEnt ''c.webp''])
        (Some 5) Map.empty)
     = [DB_PATH \<mapsto> Json [\<lparr>filePath = ''photos/a.png'', embedding = [Num 1, Num 0]\<rparr>,
                          \<lparr>filePath = ''photos/c.webp'', embedding = [Num 1, Num 0]\<rparr>]]
   \<and> snd (indexImages_v301
        (\<lambda>file. if file = ''photos/ok/B.JPG'' then Inl ''unsupported'' else Inr [Num 1, Num 0])
        ''photos''
        (Listing [FileEnt ''a.png'', DirEnt ''ok'' (Listing [FileEnt ''B.JPG'']), FileEnt ''c.webp''])
        (Some 5) Map.empty)
     = [DB_PATH \<mapsto> Json [\<lparr>filePath = ''photos/a.png'', embedding = [Num 1, Num 0]\<rparr>,
                          \<lparr>filePath = ''photos/c.webp'', embedding = [Num 1, Num 0]\<rparr>]]
   \<and> subseq [''photos/a.png'', ''photos/c.webp'']
        [''photos/a.png'', ''photos/ok/B.JPG'', ''photos/c.webp'']"
proof -
  let ?tree = "Listing [FileEnt ''a.png'', DirEnt ''ok'' (Listing [FileEnt ''B.JPG'']), FileEnt ''c.webp'']"
  let ?files = "[''photos/a.png'', ''photos/ok/B.JPG'', ''photos/c.webp'']"
  let ?embed = "\<lambda>file. if file = ''photos/ok/B.JPG'' then Inl ''unsupported'' else Inr [Num 1, Num 0]"
  let ?db = "[\<lparr>filePath = ''photos/a.png'', embedding = [Num 1, Num 0]\<rparr>,
              \<lparr>filePath = ''photos/c.webp'', embedding = [Num 1, Num 0]\<rparr>]"
  have h1: "?files \<noteq> []" by simp
  have h2: "findImageFilesRecursive ''photos'' ?tree = Inr ?files"
    by (simp add: isImage_a isImage_B isImage_c joins)
  have h3: "fst (findImageFilesRecursive_v301 ''photos'' ?tree) = ?files"
    by (simp add: isImage_a isImage_B isImage_c joins)
  have v: "snd (indexImages ?embed ''photos'' ?tree (Some 5) Map.empty) = [DB_PATH \<mapsto> Json ?db]"
    by (simp add: indexImages_def isImage_a isImage_B isImage_c joins Let_def
        limitReached_def)
  have w: "snd (indexImages_v301 ?embed ''photos'' ?tree (Some 5) Map.empty) = [DB_PATH \<mapsto> Json ?db]"
    by (simp add: indexImages_v301_def isImage_a isImage_B isImage_c joins Let_def
        limitReached_def)
  note t = indexImages_preserves_discovery_order [OF h1, where imagesDir = "''photos''"
      and rootDir = "''photos''" and tree = ?tree and embedImage = ?embed and fs = Map.empty
      and limit = "Some 5"]
  have "\<exists>db. snd (indexImages ?embed ''photos'' ?tree (Some 5) Map.empty) = [DB_PATH \<mapsto> Json db]
        \<and> map filePath db = filter (embeds ?embed) (attempted (Some 5) ?files)
        \<and> subseq (map filePath db) ?files"
    by (rule t [THEN conjunct1, THEN mp]) (rule h2)
  then obtain db where "[DB_PATH \<mapsto> Json db] = [DB_PATH \<mapsto> Json ?db]"
      and "subseq (map filePath db) ?files"
    unfolding v by metis
  then have s: "subseq [''photos/a.png'', ''photos/c.webp''] ?files"
    by (simp add: map_upd_eqD1)
  show ?thesis
    using h1 h2 h3 v w s by (intro conjI)
qed

end
